theory Spec2Isabelle
  imports Complex_Main "HOL-Library.Multiset" "HOL-Library.Monad_Syntax"
begin

section \<open>Values of the program\<close>

text \<open>
  The program (\<^verbatim>\<open>deprem.py\<close>) handles what \<^verbatim>\<open>json.load\<close> and \<^verbatim>\<open>r.json()\<close> return: \<^verbatim>\<open>None\<close>,
  booleans, unbounded integers, floats, strings, lists and dicts with string keys. A
  float is modelled by the real number it denotes (NaN and the infinities, which
  Python's JSON reader also accepts, are outside this model). A JSON object is the list
  of its members in the order of the text; \<^verbatim>\<open>json\<close> keeps the last of several members
  with one key, which is what \<open>obj_get\<close> looks up.
\<close>

datatype json =
    JNull
  | JBool bool
  | JInt int
  | JFloat real
  | JStr string
  | JList "json list"
  | JDict "(string \<times> json) list"

text \<open>Truth value of an object, as \<^verbatim>\<open>x or y\<close> tests it.\<close>

fun truthy :: "json \<Rightarrow> bool" where
  "truthy JNull = False"
| "truthy (JBool b) = b"
| "truthy (JInt i) = (i \<noteq> 0)"
| "truthy (JFloat r) = (r \<noteq> 0)"
| "truthy (JStr s) = (s \<noteq> [])"
| "truthy (JList xs) = (xs \<noteq> [])"
| "truthy (JDict kvs) = (kvs \<noteq> [])"

definition py_or :: "json \<Rightarrow> json \<Rightarrow> json" where
  "py_or a b = (if truthy a then a else b)"

definition obj_get :: "(string \<times> json) list \<Rightarrow> string \<Rightarrow> json option" where
  "obj_get kvs k = map_of (rev kvs) k"

text \<open>The keys of a dict in insertion order (the first occurrence of each key).\<close>

definition keys_of :: "(string \<times> json) list \<Rightarrow> string list" where
  "keys_of kvs = rev (remdups (rev (map fst kvs)))"

text \<open>
  \<^verbatim>\<open>v.get(k, d)\<close>. Only a dict has a \<^verbatim>\<open>get\<close>: on every other value the call raises
  \<^verbatim>\<open>AttributeError\<close>, which is the result \<open>None\<close> here. All the exceptions of this
  program are caught by an \<^verbatim>\<open>except Exception\<close> that does not look at them, so a raised
  exception is modelled by \<open>None\<close> throughout.
\<close>

fun py_get :: "json \<Rightarrow> string \<Rightarrow> json \<Rightarrow> json option" where
  "py_get (JDict kvs) k d = Some (case obj_get kvs k of Some v \<Rightarrow> v | None \<Rightarrow> d)"
| "py_get _ k d = None"

text \<open>
  The builtins whose definitions live outside the repository and read or write number
  syntax: \<^verbatim>\<open>float(s)\<close> and \<^verbatim>\<open>int(s)\<close> on a string (\<open>None\<close> is \<^verbatim>\<open>ValueError\<close>), and
  SQLite's conversions between numbers and text under a column affinity; and the
  rounding of an integer beyond \<open>2^53\<close> to the nearest double. They are parameters of the
  model.
\<close>

record builtins =
  float_of_str :: "string \<Rightarrow> real option"
  int_of_str :: "string \<Rightarrow> int option"
  nearest_double :: "int \<Rightarrow> real"
  text_of_int :: "int \<Rightarrow> string"
  text_of_real :: "real \<Rightarrow> string"
  numeric_of_text :: "string \<Rightarrow> (int + real) option"

text \<open>
  The double of an integer: exact up to \<open>2^53\<close>, rounded beyond.
\<close>

definition double_of_int :: "builtins \<Rightarrow> int \<Rightarrow> real" where
  "double_of_int py i = (if \<bar>i\<bar> \<le> 2 ^ 53 then real_of_int i else nearest_double py i)"

text \<open>
  \<^verbatim>\<open>float(x)\<close>: an integer too large for a double raises \<^verbatim>\<open>OverflowError\<close> (from
  \<open>2^1024 - 2^970\<close> on, which rounds to \<open>2^1024\<close>); \<^verbatim>\<open>None\<close>, a list and a dict raise
  \<^verbatim>\<open>TypeError\<close>.
\<close>

definition float_overflow :: int where
  "float_overflow = 2 ^ 1024 - 2 ^ 970"

fun py_float :: "builtins \<Rightarrow> json \<Rightarrow> real option" where
  "py_float py (JFloat r) = Some r"
| "py_float py (JInt i) = (if \<bar>i\<bar> < float_overflow then Some (double_of_int py i) else None)"
| "py_float py (JBool b) = Some (if b then 1 else 0)"
| "py_float py (JStr s) = float_of_str py s"
| "py_float py JNull = None"
| "py_float py (JList xs) = None"
| "py_float py (JDict kvs) = None"

text \<open>\<^verbatim>\<open>int(x)\<close>: a float is truncated towards zero.\<close>

fun py_int :: "builtins \<Rightarrow> json \<Rightarrow> int option" where
  "py_int py (JInt i) = Some i"
| "py_int py (JBool b) = Some (if b then 1 else 0)"
| "py_int py (JFloat r) = Some (if 0 \<le> r then \<lfloor>r\<rfloor> else \<lceil>r\<rceil>)"
| "py_int py (JStr s) = int_of_str py s"
| "py_int py JNull = None"
| "py_int py (JList xs) = None"
| "py_int py (JDict kvs) = None"

section \<open>Settings\<close>

text \<open>
  A settings dict: keys and values in insertion order. \<^verbatim>\<open>dict.update\<close> also accepts a
  sequence of pairs, so a key need not be a string; two keys are the same key when Python
  compares them equal (\<^verbatim>\<open>1 == 1.0 == True\<close>).
\<close>

type_synonym pydict = "(json \<times> json) list"

fun num_key :: "json \<Rightarrow> real option" where
  "num_key (JBool b) = Some (if b then 1 else 0)"
| "num_key (JInt i) = Some (real_of_int i)"
| "num_key (JFloat r) = Some r"
| "num_key JNull = None"
| "num_key (JStr s) = None"
| "num_key (JList xs) = None"
| "num_key (JDict kvs) = None"

definition key_eq :: "json \<Rightarrow> json \<Rightarrow> bool" where
  "key_eq a b =
     (case num_key a of
        Some x \<Rightarrow> (case num_key b of Some y \<Rightarrow> x = y | None \<Rightarrow> False)
      | None \<Rightarrow> (case num_key b of Some y \<Rightarrow> False | None \<Rightarrow> a = b))"

fun hashable :: "json \<Rightarrow> bool" where
  "hashable (JList xs) = False"
| "hashable (JDict kvs) = False"
| "hashable JNull = True"
| "hashable (JBool b) = True"
| "hashable (JInt i) = True"
| "hashable (JFloat r) = True"
| "hashable (JStr s) = True"

fun dict_get :: "pydict \<Rightarrow> json \<Rightarrow> json option" where
  "dict_get [] k = None"
| "dict_get ((k', v) # d) k = (if key_eq k' k then Some v else dict_get d k)"

text \<open>\<^verbatim>\<open>d[k] = v\<close>: an existing key keeps its place, a new key goes last.\<close>

fun dict_set :: "pydict \<Rightarrow> json \<Rightarrow> json \<Rightarrow> pydict" where
  "dict_set [] k v = [(k, v)]"
| "dict_set ((k', v') # d) k v =
     (if key_eq k' k then (k', v) # d else (k', v') # dict_set d k v)"

text \<open>
  One element of the sequence given to \<^verbatim>\<open>dict.update\<close>: it is iterated and must yield
  exactly two objects, the key and the value. A list yields its elements, a string its
  characters, a dict its keys; any other element raises \<^verbatim>\<open>TypeError\<close>, another length
  \<^verbatim>\<open>ValueError\<close>.
\<close>

fun pair_of :: "json \<Rightarrow> (json \<times> json) option" where
  "pair_of (JList xs) = (case xs of [k, v] \<Rightarrow> Some (k, v) | _ \<Rightarrow> None)"
| "pair_of (JStr s) = (case s of [a, b] \<Rightarrow> Some (JStr [a], JStr [b]) | _ \<Rightarrow> None)"
| "pair_of (JDict kvs) =
     (case keys_of kvs of [a, b] \<Rightarrow> Some (JStr a, JStr b) | _ \<Rightarrow> None)"
| "pair_of JNull = None"
| "pair_of (JBool b) = None"
| "pair_of (JInt i) = None"
| "pair_of (JFloat r) = None"

fun update_pairs :: "pydict \<Rightarrow> json list \<Rightarrow> pydict option" where
  "update_pairs d [] = Some d"
| "update_pairs d (x # xs) =
     (case pair_of x of
        None \<Rightarrow> None
      | Some (k, v) \<Rightarrow> if hashable k then update_pairs (dict_set d k v) xs else None)"

text \<open>
  \<^verbatim>\<open>d.update(s)\<close> for what \<^verbatim>\<open>json.load\<close> may return. A dict is merged key by key; a list
  is taken as a sequence of pairs; a string is a sequence of one-character strings, none
  of which is a pair; \<^verbatim>\<open>None\<close>, a boolean and a number are not iterable.
\<close>

fun dict_update :: "pydict \<Rightarrow> json \<Rightarrow> pydict option" where
  "dict_update d (JDict kvs) = Some (fold (\<lambda>(k, v) d'. dict_set d' (JStr k) v) kvs d)"
| "dict_update d (JList xs) = update_pairs d xs"
| "dict_update d (JStr s) = (if s = [] then Some d else None)"
| "dict_update d JNull = None"
| "dict_update d (JBool b) = None"
| "dict_update d (JInt i) = None"
| "dict_update d (JFloat r) = None"

definition DEFAULT_SETTINGS :: pydict where
  "DEFAULT_SETTINGS =
     [(JStr ''theme'', JStr ''dark''),
      (JStr ''mag_threshold_for_notification'', JFloat 5.5),
      (JStr ''auto_refresh_minutes'', JInt 5),
      (JStr ''map_min_mag'', JFloat 0.0)]"

text \<open>
  What \<^verbatim>\<open>load_settings\<close> finds at \<^verbatim>\<open>SETTINGS_FILE\<close>: no file (\<^verbatim>\<open>os.path.exists\<close> is false),
  a file that \<^verbatim>\<open>open\<close> or \<^verbatim>\<open>json.load\<close> fails on, or a file that \<^verbatim>\<open>json.load\<close> reads as a
  value.
\<close>

datatype settings_file = NoFile | Unreadable | Parsed json

fun load_settings :: "settings_file \<Rightarrow> pydict" where
  "load_settings NoFile = DEFAULT_SETTINGS"
| "load_settings Unreadable = DEFAULT_SETTINGS"
| "load_settings (Parsed s) =
     (case dict_update DEFAULT_SETTINGS s of
        Some d \<Rightarrow> d
      | None \<Rightarrow> DEFAULT_SETTINGS)"

section \<open>The data source\<close>

text \<open>
  What \<^verbatim>\<open>requests.get\<close> meets: an exception of the transport (connection, timeout), or a
  response with a status code and a body that \<^verbatim>\<open>r.json()\<close> reads as a value or fails on.
  \<^verbatim>\<open>raise_for_status\<close> raises for the codes 400 to 599 and for no other.
\<close>

datatype http = TransportError | Response nat "json option"

definition raise_for_status :: "nat \<Rightarrow> bool" where
  "raise_for_status status = (400 \<le> status \<and> status < 600)"

text \<open>The result of \<^verbatim>\<open>api_get\<close>, and whether it wrote its \<^verbatim>\<open>API error\<close> line to the log.\<close>

fun api_get :: "http \<Rightarrow> json list \<times> bool" where
  "api_get TransportError = ([], True)"
| "api_get (Response status body) =
     (if raise_for_status status then ([], True)
      else case body of
        None \<Rightarrow> ([], True)
      | Some js \<Rightarrow>
          (case js of
             JDict kvs \<Rightarrow>
               (case obj_get kvs ''result'' of
                  Some (JList xs) \<Rightarrow> (xs, False)
                | _ \<Rightarrow> ([], False))
           | JList xs \<Rightarrow> (xs, False)
           | _ \<Rightarrow> ([], False)))"

definition fetch_live_earthquakes :: "http \<Rightarrow> json list" where
  "fetch_live_earthquakes r = fst (api_get r)"

definition fetch_archive_earthquakes :: "http \<Rightarrow> json list" where
  "fetch_archive_earthquakes r = fst (api_get r)"

section \<open>The local store\<close>

text \<open>
  What SQLite stores in a column. \<open>adapt\<close> is the binding of a Python object to a
  parameter of \<^verbatim>\<open>cur.execute\<close>: a list or a dict is not supported and an integer outside
  64 bits overflows; both raise.
\<close>

datatype sqlval = SNull | SInt int | SReal real | SText string

definition int64 :: "int \<Rightarrow> bool" where
  "int64 i = (- (2 ^ 63) \<le> i \<and> i < 2 ^ 63)"

fun adapt :: "json \<Rightarrow> sqlval option" where
  "adapt JNull = Some SNull"
| "adapt (JBool b) = Some (SInt (if b then 1 else 0))"
| "adapt (JInt i) = (if int64 i then Some (SInt i) else None)"
| "adapt (JFloat r) = Some (SReal r)"
| "adapt (JStr s) = Some (SText s)"
| "adapt (JList xs) = None"
| "adapt (JDict kvs) = None"

text \<open>
  Column affinity: a \<^verbatim>\<open>TEXT\<close> column turns a number into text; an \<^verbatim>\<open>INTEGER\<close> column
  turns text that is a number into that number and a real that is an integer into the
  integer; a \<^verbatim>\<open>REAL\<close> column does the same and then stores an integer as a real.
\<close>

fun text_affinity :: "builtins \<Rightarrow> sqlval \<Rightarrow> sqlval" where
  "text_affinity py (SInt i) = SText (text_of_int py i)"
| "text_affinity py (SReal r) = SText (text_of_real py r)"
| "text_affinity py (SText s) = SText s"
| "text_affinity py SNull = SNull"

definition integer_of_real :: "real \<Rightarrow> sqlval" where
  "integer_of_real r =
     (if real_of_int \<lfloor>r\<rfloor> = r \<and> int64 \<lfloor>r\<rfloor> then SInt \<lfloor>r\<rfloor> else SReal r)"

fun integer_affinity :: "builtins \<Rightarrow> sqlval \<Rightarrow> sqlval" where
  "integer_affinity py (SText s) =
     (case numeric_of_text py s of
        None \<Rightarrow> SText s
      | Some (Inl i) \<Rightarrow> SInt i
      | Some (Inr r) \<Rightarrow> integer_of_real r)"
| "integer_affinity py (SReal r) = integer_of_real r"
| "integer_affinity py (SInt i) = SInt i"
| "integer_affinity py SNull = SNull"

definition real_affinity :: "builtins \<Rightarrow> sqlval \<Rightarrow> sqlval" where
  "real_affinity py v =
     (case integer_affinity py v of SInt i \<Rightarrow> SReal (double_of_int py i) | w \<Rightarrow> w)"

text \<open>
  A row of the table \<^verbatim>\<open>earthquakes\<close> of \<^verbatim>\<open>db_init\<close>, with the columns that the program
  always fills with a float or an integer typed so. \<open>airports_json\<close> holds the value
  whose \<^verbatim>\<open>json.dumps\<close> text the column stores.
\<close>

record row =
  earthquake_id :: sqlval
  provider :: sqlval
  title :: sqlval
  date :: sqlval
  mag :: real
  depth :: real
  lon :: real
  lat :: real
  created_at :: int
  closestCity_name :: sqlval
  closestCity_code :: sqlval
  closestCity_distance :: sqlval
  closestCity_population :: sqlval
  epiCenter_name :: sqlval
  airports_json :: json

subsection \<open>The body of the loop of \<^verbatim>\<open>db_upsert_earthquakes\<close>\<close>

text \<open>Lines 191 to 194: the identifier and the three labels.\<close>

definition text_fields :: "json \<Rightarrow> (json \<times> json \<times> json \<times> json) option" where
  "text_fields e = do {
     gid \<leftarrow> py_get e ''earthquake_id'' JNull;
     prov \<leftarrow> py_get e ''provider'' JNull;
     title \<leftarrow> py_get e ''title'' JNull;
     d1 \<leftarrow> py_get e ''date'' JNull;
     d2 \<leftarrow> py_get e ''date_time'' JNull;
     Some (py_or gid (JStr []), py_or prov (JStr []), py_or title (JStr []),
           py_or (py_or d1 d2) (JStr []))
   }"

text \<open>
  \<^verbatim>\<open>len(geo)\<close> and \<^verbatim>\<open>geo[i]\<close> for \<open>i\<close> below the length: a string gives a character, a
  dict has no integer key (\<^verbatim>\<open>KeyError\<close>), \<^verbatim>\<open>None\<close>, a boolean and a number have no length.
\<close>

fun py_len :: "json \<Rightarrow> nat option" where
  "py_len (JList xs) = Some (length xs)"
| "py_len (JStr s) = Some (length s)"
| "py_len (JDict kvs) = Some (length (keys_of kvs))"
| "py_len JNull = None"
| "py_len (JBool b) = None"
| "py_len (JInt i) = None"
| "py_len (JFloat r) = None"

fun py_index :: "json \<Rightarrow> nat \<Rightarrow> json option" where
  "py_index (JList xs) i = (if i < length xs then Some (xs ! i) else None)"
| "py_index (JStr s) i = (if i < length s then Some (JStr [s ! i]) else None)"
| "py_index (JDict kvs) i = None"
| "py_index JNull i = None"
| "py_index (JBool b) i = None"
| "py_index (JInt n) i = None"
| "py_index (JFloat r) i = None"

text \<open>\<^verbatim>\<open>float(geo[i]) if len(geo) > i else 0.0\<close>\<close>

definition coord :: "builtins \<Rightarrow> json \<Rightarrow> nat \<Rightarrow> real option" where
  "coord py geo i = do {
     n \<leftarrow> py_len geo;
     if i < n then do { x \<leftarrow> py_index geo i; py_float py x } else Some 0
   }"

text \<open>Lines 195 to 199: magnitude, depth, longitude and latitude.\<close>

definition numeric_fields :: "builtins \<Rightarrow> json \<Rightarrow> (real \<times> real \<times> real \<times> real) option" where
  "numeric_fields py e = do {
     m \<leftarrow> py_get e ''mag'' JNull;
     mag \<leftarrow> py_float py (py_or m (JInt 0));
     d \<leftarrow> py_get e ''depth'' JNull;
     depth \<leftarrow> py_float py (py_or d (JInt 0));
     gj \<leftarrow> py_get e ''geojson'' (JDict []);
     geo \<leftarrow> py_get gj ''coordinates'' (JList [JInt 0, JInt 0]);
     lon \<leftarrow> coord py geo 0;
     lat \<leftarrow> coord py geo 1;
     Some (mag, depth, lon, lat)
   }"

text \<open>Lines 201 to 210: the nearest city, the epicentre and the airports.\<close>

definition location_fields ::
  "json \<Rightarrow> (json \<times> json \<times> json \<times> json \<times> json \<times> json) option" where
  "location_fields e = do {
     lp0 \<leftarrow> py_get e ''location_properties'' (JDict []);
     let lp = py_or lp0 (JDict []);
     cc0 \<leftarrow> py_get lp ''closestCity'' (JDict []);
     let cc = py_or cc0 (JDict []);
     cc_name \<leftarrow> py_get cc ''name'' JNull;
     cc_code \<leftarrow> py_get cc ''cityCode'' JNull;
     cc_dist \<leftarrow> py_get cc ''distance'' JNull;
     cc_pop \<leftarrow> py_get cc ''population'' JNull;
     epi0 \<leftarrow> py_get lp ''epiCenter'' (JDict []);
     let epi = py_or epi0 (JDict []);
     epi_name \<leftarrow> py_get epi ''name'' JNull;
     a0 \<leftarrow> py_get lp ''airports'' (JList []);
     Some (cc_name, cc_code, cc_dist, cc_pop, epi_name, py_or a0 (JList []))
   }"

text \<open>
  Lines 191 to 233 for one record \<open>e\<close>, with \<open>now\<close> the value of \<^verbatim>\<open>int(time.time())\<close>:
  the row that \<^verbatim>\<open>cur.execute\<close> writes, or \<open>None\<close> when a statement of the \<^verbatim>\<open>try\<close> block
  raises.
\<close>

definition row_of :: "builtins \<Rightarrow> int \<Rightarrow> json \<Rightarrow> row option" where
  "row_of py now e = do {
     (gid, prov, ttl, dt) \<leftarrow> text_fields e;
     (m, d, lo, la) \<leftarrow> numeric_fields py e;
     c \<leftarrow> py_get e ''created_at'' JNull;
     created \<leftarrow> py_int py (py_or c (JInt now));
     (cc_name, cc_code, cc_dist, cc_pop, epi_name, airports) \<leftarrow> location_fields e;
     v_gid \<leftarrow> adapt gid;
     v_prov \<leftarrow> adapt prov;
     v_ttl \<leftarrow> adapt ttl;
     v_dt \<leftarrow> adapt dt;
     v_created \<leftarrow> (if int64 created then Some created else None);
     v_name \<leftarrow> adapt cc_name;
     v_code \<leftarrow> adapt cc_code;
     v_dist \<leftarrow> adapt cc_dist;
     v_pop \<leftarrow> adapt cc_pop;
     v_epi \<leftarrow> adapt epi_name;
     Some \<lparr> earthquake_id = text_affinity py v_gid,
            provider = text_affinity py v_prov,
            title = text_affinity py v_ttl,
            date = text_affinity py v_dt,
            mag = m, depth = d, lon = lo, lat = la,
            created_at = v_created,
            closestCity_name = text_affinity py v_name,
            closestCity_code = integer_affinity py v_code,
            closestCity_distance = real_affinity py v_dist,
            closestCity_population = integer_affinity py v_pop,
            epiCenter_name = text_affinity py v_epi,
            airports_json = airports \<rparr>
   }"

text \<open>
  The table is the list of its rows in the order of insertion. \<^verbatim>\<open>INSERT ... ON CONFLICT
  (earthquake_id) DO UPDATE SET\<close> every other column: a row with the same key is replaced
  where it stands, a new key is appended.
\<close>

definition sql_upsert :: "row \<Rightarrow> row list \<Rightarrow> row list" where
  "sql_upsert r tbl =
     (if earthquake_id r \<in> set (map earthquake_id tbl)
      then map (\<lambda>x. if earthquake_id x = earthquake_id r then r else x) tbl
      else tbl @ [r])"

text \<open>
  \<^verbatim>\<open>db_upsert_earthquakes\<close>: \<open>clock i\<close> is the clock read while the record at position \<open>i\<close>
  is handled. A record whose \<^verbatim>\<open>try\<close> block raises is logged and left out.
\<close>

fun db_upsert_earthquakes ::
  "builtins \<Rightarrow> (nat \<Rightarrow> int) \<Rightarrow> json list \<Rightarrow> row list \<Rightarrow> row list" where
  "db_upsert_earthquakes py clock [] tbl = tbl"
| "db_upsert_earthquakes py clock (e # items) tbl =
     db_upsert_earthquakes py (\<lambda>i. clock (Suc i)) items
       (case row_of py (clock 0) e of
          Some r \<Rightarrow> sql_upsert r tbl
        | None \<Rightarrow> tbl)"


subsection \<open>\<^verbatim>\<open>db_fetch_last\<close>\<close>

text \<open>
  \<^verbatim>\<open>SELECT * FROM earthquakes ORDER BY created_at DESC LIMIT ?\<close>. SQLite leaves the order
  of two rows with equal \<^verbatim>\<open>ORDER BY\<close> values undefined, and a negative \<^verbatim>\<open>LIMIT\<close> is no
  limit. \<open>db_fetch_last_returns tbl k rows\<close> holds for every list \<open>rows\<close> that the query
  may return; a limit outside 64 bits cannot be bound and raises.
\<close>

definition sql_limit :: "int \<Rightarrow> 'a list \<Rightarrow> 'a list" where
  "sql_limit k xs = (if k < 0 then xs else take (nat k) xs)"



text \<open>
  The answer in which rows with equal \<^verbatim>\<open>created_at\<close> come in the order of insertion: the
  one the cycles below are run with.
\<close>

definition db_fetch_last :: "row list \<Rightarrow> int \<Rightarrow> row list" where
  "db_fetch_last tbl k = sql_limit k (sort_key (\<lambda>r. - created_at r) tbl)"

section \<open>The refresh cycle\<close>

text \<open>
  The state that a cycle reads and writes: the table, the number of requests sent so far,
  the thread of the map tab (\<^verbatim>\<open>MapTab.thread\<close>, \<open>Running\<close> while \<^verbatim>\<open>isRunning()\<close> holds), the
  data handed to each tab, the tray notifications shown (the magnitudes) and the lines of
  the log tab. The world outside is \<open>upstream\<close>, the answer to the \<open>n\<close>-th request, and
  \<open>clock\<close>: \<open>clock n i\<close> is the clock read for the record at position \<open>i\<close> of that answer.
\<close>

datatype qthread = Running | Finished

datatype log_line = Refreshed nat | Failed

record app =
  db :: "row list"
  calls :: nat
  thread :: "qthread option"
  home_rows :: "row list"
  map_last_eqs :: "row list"
  near_last_data :: "row list"
  analysis_data :: "row list"
  tray :: "real list"
  logs :: "log_line list"

text \<open>
  \<^verbatim>\<open>MapTab.refresh\<close> returns at once while its thread runs; otherwise it starts a thread
  with a new worker. The worker (\<^verbatim>\<open>MapGeneratorWorker.run\<close>) fetches and upserts on its own
  before it draws; a step of this model is one whole call.
\<close>

definition MapTab_refresh :: "app \<Rightarrow> app" where
  "MapTab_refresh s = (if thread s = Some Running then s else s\<lparr>thread := Some Running\<rparr>)"

definition MapTab_set_data :: "row list \<Rightarrow> app \<Rightarrow> app" where
  "MapTab_set_data eqs s = MapTab_refresh (s\<lparr>map_last_eqs := eqs\<rparr>)"

definition MapGeneratorWorker_run ::
  "bool \<Rightarrow> bool \<Rightarrow> builtins \<Rightarrow> (nat \<Rightarrow> http) \<Rightarrow> (nat \<Rightarrow> nat \<Rightarrow> int) \<Rightarrow> app \<Rightarrow> app" where
  "MapGeneratorWorker_run has_folium live py upstream clock s =
     (if \<not> has_folium then s\<lparr>thread := Some Finished\<rparr>
      else
        let eqs = (if live then fetch_live_earthquakes (upstream (calls s))
                   else fetch_archive_earthquakes (upstream (calls s)))
        in s\<lparr>db := db_upsert_earthquakes py (clock (calls s)) eqs (db s),
             calls := Suc (calls s),
             thread := Some Finished\<rparr>)"

definition on_thread_finished :: "app \<Rightarrow> app" where
  "on_thread_finished s = s\<lparr>thread := None\<rparr>"

text \<open>
  \<^verbatim>\<open>NearTab.refresh_data\<close>, lines 513 to 520: the tab reads the table, and when it finds it
  empty it fetches and upserts by itself and reads again.
\<close>

definition NearTab_load ::
  "builtins \<Rightarrow> (nat \<Rightarrow> http) \<Rightarrow> (nat \<Rightarrow> nat \<Rightarrow> int) \<Rightarrow> app \<Rightarrow> app" where
  "NearTab_load py upstream clock s =
     (let rows = db_fetch_last (db s) 200
      in if rows = [] then
           let eqs = fetch_live_earthquakes (upstream (calls s));
               s' = s\<lparr>db := db_upsert_earthquakes py (clock (calls s)) eqs (db s),
                      calls := Suc (calls s)\<rparr>
           in s'\<lparr>near_last_data := db_fetch_last (db s') 200\<rparr>
         else s\<lparr>near_last_data := rows\<rparr>)"

text \<open>
  Lines 530 to 557 fill the table view, one row at a time. The airports of a row are read
  back from \<^verbatim>\<open>airports_json\<close>; when they are not empty, line 536 joins \<^verbatim>\<open>a.get("name", "")\<close>
  over them, which raises unless they are a list of objects whose \<^verbatim>\<open>name\<close>, if any, is a
  string. Nothing else in these lines raises on a row of the table.
\<close>

fun airport_name_ok :: "json \<Rightarrow> bool" where
  "airport_name_ok (JDict kvs) =
     (case obj_get kvs ''name'' of None \<Rightarrow> True | Some (JStr n) \<Rightarrow> True | Some _ \<Rightarrow> False)"
| "airport_name_ok _ = False"

definition airports_render :: "json \<Rightarrow> bool" where
  "airports_render a =
     (if truthy a then (case a of JList xs \<Rightarrow> list_all airport_name_ok xs | _ \<Rightarrow> False)
      else True)"




text \<open>Lines 735 and 736: the threshold, 5.5 when the setting is not a number.\<close>

definition notification_threshold :: "builtins \<Rightarrow> pydict \<Rightarrow> real" where
  "notification_threshold py settings =
     (case py_float py
             (case dict_get settings (JStr ''mag_threshold_for_notification'') of
                Some v \<Rightarrow> v
              | None \<Rightarrow> JFloat 5.5) of
        Some th \<Rightarrow> th
      | None \<Rightarrow> 5.5)"




section \<open>Inputs for the examples\<close>


definition quake :: "string \<Rightarrow> real \<Rightarrow> int \<Rightarrow> json" where
  "quake i m c =
     JDict [(''earthquake_id'', JStr i), (''mag'', JFloat m), (''created_at'', JInt c)]"



text \<open>A successful answer of the upstream whose payload is the bare array \<open>xs\<close>.\<close>

definition feed :: "json list \<Rightarrow> http" where
  "feed xs = Response 200 (Some (JList xs))"


section \<open>Facts about the values\<close>

lemma float_overflow_pos [simp]: "0 < float_overflow"
  by (simp add: float_overflow_def)

lemma double_of_int_zero [simp]: "double_of_int py 0 = 0"
  by (simp add: double_of_int_def)

lemma obj_get_Nil [simp]: "obj_get [] k = None"
  by (simp add: obj_get_def)


lemma key_eq_sym: "key_eq a b \<Longrightarrow> key_eq b a"
  by (auto simp: key_eq_def split: option.splits)

lemma key_eq_trans: "key_eq a b \<Longrightarrow> key_eq b c \<Longrightarrow> key_eq a c"
  by (auto simp: key_eq_def split: option.splits)

lemma key_eq_JStr [simp]: "key_eq (JStr a) (JStr b) = (a = b)"
  by (simp add: key_eq_def)

text \<open>Reading a key after \<^verbatim>\<open>d[a] = v\<close>.\<close>

lemma dict_get_set:
  "dict_get (dict_set d a v) b = (if key_eq a b then Some v else dict_get d b)"
proof (induction d)
  case Nil
  show ?case by simp
next
  case (Cons p d)
  obtain k' v' where p: "p = (k', v')" by (cases p)
  show ?case
  proof (cases "key_eq k' a")
    case True
    then have "key_eq k' b = key_eq a b"
      using key_eq_sym key_eq_trans by blast
    with True show ?thesis by (simp add: p)
  next
    case False
    then have "key_eq a b \<Longrightarrow> \<not> key_eq k' b"
      using key_eq_sym key_eq_trans by blast
    with False Cons.IH show ?thesis by (auto simp: p)
  qed
qed

lemma dict_get_fold:
  "dict_get (fold (\<lambda>(k, v) d'. dict_set d' (JStr k) v) kvs d) (JStr k) =
     (case obj_get kvs k of Some v \<Rightarrow> Some v | None \<Rightarrow> dict_get d (JStr k))"
proof (induction kvs arbitrary: d)
  case Nil
  show ?case by simp
next
  case (Cons p kvs)
  obtain a v where p: "p = (a, v)" by (cases p)
  show ?case
    by (simp add: p Cons.IH dict_get_set obj_get_def map_add_def split: option.splits)
qed

lemma load_settings_defaults:
  "load_settings NoFile = DEFAULT_SETTINGS"
  "load_settings Unreadable = DEFAULT_SETTINGS"
  "load_settings (Parsed JNull) = DEFAULT_SETTINGS"
  "load_settings (Parsed (JBool b)) = DEFAULT_SETTINGS"
  "load_settings (Parsed (JInt i)) = DEFAULT_SETTINGS"
  "load_settings (Parsed (JFloat r)) = DEFAULT_SETTINGS"
  "load_settings (Parsed (JStr s)) = DEFAULT_SETTINGS"
  by simp_all

lemma fetch_feed [simp]: "fetch_live_earthquakes (feed xs) = xs"
  by (simp add: feed_def fetch_live_earthquakes_def raise_for_status_def)

lemma fetch_TransportError [simp]: "fetch_live_earthquakes TransportError = []"
  by (simp add: fetch_live_earthquakes_def)

section \<open>Facts about one record\<close>



lemma int64_small [simp]: "int64 1000" "int64 2000"
  by (simp_all add: int64_def)




lemma coord_default [simp]: "coord py (JList [JInt 0, JInt 0]) i = Some 0"
  by (cases i; cases "i - 1") (auto simp: coord_def)







section \<open>Facts about the table\<close>














lemma db_fetch_last_Nil [simp]: "db_fetch_last tbl 200 = [] \<longleftrightarrow> tbl = []"
proof -
  have "length (sort_key (\<lambda>r. - created_at r) tbl) = length tbl"
    by simp
  then show ?thesis
    by (cases tbl) (auto simp: db_fetch_last_def sql_limit_def simp del: length_sort)
qed

section \<open>Facts about the cycle\<close>

lemma threshold_default [simp]: "notification_threshold py DEFAULT_SETTINGS = 5.5"
  by (simp add: notification_threshold_def DEFAULT_SETTINGS_def key_eq_def)

lemma threshold_configured:
  "dict_get settings (JStr ''mag_threshold_for_notification'') = Some (JFloat t) \<Longrightarrow>
   notification_threshold py settings = t"
  by (simp add: notification_threshold_def)

lemma MapTab_set_data_fields [simp]:
  "db (MapTab_set_data eqs s) = db s"
  "calls (MapTab_set_data eqs s) = calls s"
  "tray (MapTab_set_data eqs s) = tray s"
  "logs (MapTab_set_data eqs s) = logs s"
  "home_rows (MapTab_set_data eqs s) = home_rows s"
  "near_last_data (MapTab_set_data eqs s) = near_last_data s"
  "analysis_data (MapTab_set_data eqs s) = analysis_data s"
  "map_last_eqs (MapTab_set_data eqs s) = eqs"
  "thread (MapTab_set_data eqs s) = Some Running"
  by (simp_all add: MapTab_set_data_def MapTab_refresh_def)

lemma NearTab_load_fields [simp]:
  "tray (NearTab_load py up clock s) = tray s"
  "logs (NearTab_load py up clock s) = logs s"
  "thread (NearTab_load py up clock s) = thread s"
  "home_rows (NearTab_load py up clock s) = home_rows s"
  "map_last_eqs (NearTab_load py up clock s) = map_last_eqs s"
  "analysis_data (NearTab_load py up clock s) = analysis_data s"
  by (simp_all add: NearTab_load_def Let_def)





lemma airports_render_Nil [simp]: "airports_render (JList [])"
  by (simp add: airports_render_def)


section \<open>The claims\<close>

subsection \<open>C1: normalization and its defaults\<close>




subsection \<open>C2: the last write wins\<close>



subsection \<open>C3: the most recent rows\<close>




subsection \<open>C4: the data source\<close>

text \<open>
  Claim C4, as amended. \<^verbatim>\<open>api_get\<close> (and so the live and the archive fetch) never raises.
  On an error of the transport, on a status from 400 to 599 and on a payload that is not
  JSON it returns the empty list and logs the error. Otherwise it returns the payload when
  the payload is a list, the list under \<^verbatim>\<open>result\<close> when the payload is an object that has
  one, and the empty list (without a log line) for every other payload.
\<close>

theorem api_get_cases:
  "api_get TransportError = ([], True)
   \<and> (400 \<le> status \<and> status < 600 \<longrightarrow> api_get (Response status body) = ([], True))
   \<and> (\<not> (400 \<le> status \<and> status < 600) \<longrightarrow>
        api_get (Response status None) = ([], True)
      \<and> api_get (Response status (Some (JList xs))) = (xs, False)
      \<and> (obj_get kvs ''result'' = Some (JList xs) \<longrightarrow>
           api_get (Response status (Some (JDict kvs))) = (xs, False))
      \<and> ((\<forall>ys. obj_get kvs ''result'' \<noteq> Some (JList ys)) \<longrightarrow>
           api_get (Response status (Some (JDict kvs))) = ([], False))
      \<and> api_get (Response status (Some JNull)) = ([], False)
      \<and> api_get (Response status (Some (JBool b))) = ([], False)
      \<and> api_get (Response status (Some (JInt i))) = ([], False)
      \<and> api_get (Response status (Some (JFloat r))) = ([], False)
      \<and> api_get (Response status (Some (JStr s))) = ([], False))"
  by (auto simp: raise_for_status_def split: option.splits json.splits)

text \<open>
  Witness for C4: a status 503, an empty body under status 200, an envelope with a
  \<^verbatim>\<open>result\<close> list, and an envelope whose \<^verbatim>\<open>result\<close> is a string.
\<close>

theorem api_get_cases_witness:
  "api_get (Response 503 None) = ([], True)
   \<and> api_get (Response 200 None) = ([], True)
   \<and> api_get (Response 200 (Some (JDict [(''status'', JBool True), (''result'', JList [JNull])]))) =
       ([JNull], False)
   \<and> api_get (Response 200 (Some (JDict [(''result'', JStr ''down'')]))) = ([], False)"
  using api_get_cases [where status = 503 and body = None]
    api_get_cases [where status = 200
      and kvs = "[(''status'', JBool True), (''result'', JList [JNull])]" and xs = "[JNull]"]
    api_get_cases [where status = 200 and kvs = "[(''result'', JStr ''down'')]"]
  by (simp add: obj_get_def)

text \<open>
  Counterexample to C4 as stated: a status that is not 2xx does not always give the empty
  list. \<^verbatim>\<open>raise_for_status\<close> lets the status 300 pass, and its JSON list is returned by
  both fetches.
\<close>

theorem api_get_status_300:
  "fetch_live_earthquakes (Response 300 (Some (JList [quake ''a'' 6.1 1000]))) =
     [quake ''a'' 6.1 1000]
   \<and> fetch_archive_earthquakes (Response 300 (Some (JList [quake ''a'' 6.1 1000]))) \<noteq> []"
  by (simp add: fetch_live_earthquakes_def fetch_archive_earthquakes_def raise_for_status_def)

subsection \<open>C5: a cycle whose fetch is empty\<close>




subsection \<open>C6: the notification\<close>



subsection \<open>C7: one cycle at a time\<close>




subsection \<open>C8: the identifiers of the table\<close>



subsection \<open>C9: settings that are not an object\<close>

text \<open>
  Claim C9 fails on the code for a settings file that holds a JSON array of pairs: the
  file \<^verbatim>\<open>[["theme", "light"]]\<close> is not an object, \<^verbatim>\<open>dict.update\<close> accepts it as a sequence
  of key and value, and \<^verbatim>\<open>load_settings\<close> returns the theme \<^verbatim>\<open>light\<close> instead of the defaults.
  (A missing file, an unreadable one and a file that holds \<^verbatim>\<open>null\<close>, a boolean, a number
  or a string do give the defaults: \<open>load_settings_defaults\<close>.)
\<close>

theorem load_settings_pairs:
  "load_settings (Parsed (JList [JList [JStr ''theme'', JStr ''light'']])) =
     [(JStr ''theme'', JStr ''light''),
      (JStr ''mag_threshold_for_notification'', JFloat 5.5),
      (JStr ''auto_refresh_minutes'', JInt 5),
      (JStr ''map_min_mag'', JFloat 0.0)]
   \<and> load_settings (Parsed (JList [JList [JStr ''theme'', JStr ''light'']])) \<noteq> DEFAULT_SETTINGS"
  by (simp add: DEFAULT_SETTINGS_def)

subsection \<open>C10: settings that are an object\<close>

text \<open>
  Claim C10. For a settings file that holds a JSON object, \<^verbatim>\<open>load_settings\<close> returns the
  defaults updated key by key: a key of the file has the value of the file, any other key
  has its default, and the four keys of the defaults are all present.
\<close>

theorem load_settings_merge:
  "dict_get (load_settings (Parsed (JDict kvs))) (JStr k) =
     (case obj_get kvs k of Some v \<Rightarrow> Some v | None \<Rightarrow> dict_get DEFAULT_SETTINGS (JStr k))
   \<and> dict_get (load_settings (Parsed (JDict kvs))) (JStr ''theme'') \<noteq> None
   \<and> dict_get (load_settings (Parsed (JDict kvs))) (JStr ''mag_threshold_for_notification'') \<noteq> None
   \<and> dict_get (load_settings (Parsed (JDict kvs))) (JStr ''auto_refresh_minutes'') \<noteq> None
   \<and> dict_get (load_settings (Parsed (JDict kvs))) (JStr ''map_min_mag'') \<noteq> None"
  by (simp add: dict_get_fold DEFAULT_SETTINGS_def split: option.splits)

text \<open>
  Witness for C10: a file that sets the theme only; the theme is the file's and the
  refresh interval is the default.
\<close>

theorem load_settings_merge_witness:
  "dict_get (load_settings (Parsed (JDict [(''theme'', JStr ''light'')]))) (JStr ''theme'') =
     Some (JStr ''light'')
   \<and> dict_get (load_settings (Parsed (JDict [(''theme'', JStr ''light'')])))
        (JStr ''auto_refresh_minutes'') = Some (JInt 5)"
  using load_settings_merge [of "[(''theme'', JStr ''light'')]" "''theme''"]
    load_settings_merge [of "[(''theme'', JStr ''light'')]" "''auto_refresh_minutes''"]
  by (simp add: obj_get_def DEFAULT_SETTINGS_def)

end
